theory Spec2Isabelle
  imports Main "HOL-Library.Sublist" "HOL-Library.AList"
begin

section \<open>The gopls adapter of ycmd: \<^verbatim>\<open>ycmd/completers/go/go_completer.py\<close>\<close>

text \<open>
  The module is glue code between the generic language-server completer and gopls.  It is
  embedded function by function.  Python values that reach the module from outside (user
  options, hover payloads, decoded JSON) are dynamically typed, so they are values of the
  datatype \<open>pyval\<close>, and every operation that Python would reject at run time returns the
  exception as a value.  Strings are lists of code points below 256.
\<close>

subsection \<open>Python values and exceptions\<close>

datatype pyval =
    PNone
  | PBool bool
  | PInt int
  | PStr string
  | PList "pyval list"
  | PDict "(string \<times> pyval) list"

text \<open>
  The exceptions that can leave the functions of the module.  \<open>EngineError\<close> stands for
  whatever else the protocol engine raises from a hover query (a timeout, a closed
  connection); the module does not look at it.
\<close>

datatype error =
    TypeError
  | KeyError string
  | AssertionError
  | JSONDecodeError
  | RuntimeError string
  | NoHoverInfoException
  | EngineError string
  | CalledProcessError int
  | FileNotFoundError
  | PermissionError

text \<open>The Python class of an exception, as \<^verbatim>\<open>type(e).__name__\<close> gives it.\<close>

fun exception_class :: "error \<Rightarrow> string" where
  "exception_class TypeError = ''TypeError''"
| "exception_class (KeyError k) = ''KeyError''"
| "exception_class AssertionError = ''AssertionError''"
| "exception_class JSONDecodeError = ''JSONDecodeError''"
| "exception_class (RuntimeError m) = ''RuntimeError''"
| "exception_class NoHoverInfoException = ''NoHoverInfoException''"
| "exception_class (EngineError m) = ''EngineError''"
| "exception_class (CalledProcessError rc) = ''CalledProcessError''"
| "exception_class FileNotFoundError = ''FileNotFoundError''"
| "exception_class PermissionError = ''PermissionError''"

text \<open>\<^verbatim>\<open>d[k]\<close> for a string key: a lookup in a dict, a \<^verbatim>\<open>TypeError\<close> on anything else.\<close>

fun py_getitem :: "pyval \<Rightarrow> string \<Rightarrow> error + pyval" where
  "py_getitem (PDict kvs) k = (case map_of kvs k of None \<Rightarrow> Inl (KeyError k) | Some v \<Rightarrow> Inr v)"
| "py_getitem v k = Inl TypeError"

text \<open>
  \<^verbatim>\<open>a + b\<close> where one operand is known to be a string: the other one has to be a string
  too.
\<close>

fun py_add_str :: "pyval \<Rightarrow> string \<Rightarrow> error + string" where
  "py_add_str (PStr a) b = Inr (a @ b)"
| "py_add_str v b = Inl TypeError"

fun py_str_add :: "string \<Rightarrow> pyval \<Rightarrow> error + string" where
  "py_str_add a (PStr b) = Inr (a @ b)"
| "py_str_add a v = Inl TypeError"

text \<open>
  \<^verbatim>\<open>str.isspace\<close> on the code points below 256, and \<^verbatim>\<open>str.strip()\<close>, which removes the
  white space at both ends.
\<close>

definition py_isspace :: "char \<Rightarrow> bool" where
  "py_isspace c =
     (let n = (of_char c :: nat)
      in (9 \<le> n \<and> n \<le> 13) \<or> (28 \<le> n \<and> n \<le> 32) \<or> n = 133 \<or> n = 160)"

definition lstrip :: "string \<Rightarrow> string" where
  "lstrip s = dropWhile py_isspace s"

definition rstrip :: "string \<Rightarrow> string" where
  "rstrip s = rev (dropWhile py_isspace (rev s))"

definition strip :: "string \<Rightarrow> string" where
  "strip s = rstrip (lstrip s)"

text \<open>
  \<^verbatim>\<open>sub in s\<close> for two strings: \<open>sub\<close> occurs in \<open>s\<close> as a contiguous run, starting here or
  further to the right.
\<close>

fun str_contains :: "string \<Rightarrow> string \<Rightarrow> bool" where
  "str_contains [] sub = (sub = [])"
| "str_contains (c # cs) sub = (prefix sub (c # cs) \<or> str_contains cs sub)"

subsection \<open>The completer object\<close>

text \<open>
  Objects that are shared by reference live in a store: the value at each address, and
  the next address that has not been given out.  The settings dict of the completer maps
  each of its keys to the address of the value, so that two views of the same subsection
  are the same address.  \<open>store_set\<close> is the assignment \<^verbatim>\<open>obj[ k ] = v\<close> on the dict at an
  address; every holder of the address sees it.
\<close>

type_synonym ref = nat

record store =
  objects :: "ref \<Rightarrow> pyval"
  next_ref :: ref

definition alloc :: "store \<Rightarrow> pyval \<Rightarrow> ref \<times> store" where
  "alloc h v = (next_ref h, h\<lparr>objects := (objects h)(next_ref h := v), next_ref := Suc (next_ref h)\<rparr>)"

fun dict_set :: "pyval \<Rightarrow> string \<Rightarrow> pyval \<Rightarrow> pyval" where
  "dict_set (PDict kvs) k v = PDict (AList.update k v kvs)"
| "dict_set d k v = d"

definition store_set :: "store \<Rightarrow> ref \<Rightarrow> string \<Rightarrow> pyval \<Rightarrow> store" where
  "store_set h r k v = h\<lparr>objects := (objects h)(r := dict_set (objects h r) k v)\<rparr>"

definition store_get :: "store \<Rightarrow> ref \<Rightarrow> string \<Rightarrow> error + pyval" where
  "store_get h r k = py_getitem (objects h r) k"

record completer =
  user_supplied_gopls_args :: pyval
  gopls_path :: pyval
  excluded_workspace_paths :: "pyval list"
  stderr_file :: pyval
  settings :: "(string \<times> ref) list"

subsection \<open>\<^verbatim>\<open>GetCommandLine\<close>\<close>

text \<open>
  \<open>debug\<close> is the value of \<^verbatim>\<open>utils.LOGGER.isEnabledFor( logging.DEBUG )\<close>.  Adding a list
  and something that is not a list is a \<^verbatim>\<open>TypeError\<close>.
\<close>

definition GetCommandLine :: "completer \<Rightarrow> bool \<Rightarrow> error + pyval list" where
  "GetCommandLine self debug =
     (case user_supplied_gopls_args self of
        PList args \<Rightarrow>
          (let cmdline = [gopls_path self] @ args @ [PStr ''-logfile'', stderr_file self]
           in Inr (if debug then cmdline @ [PStr ''-rpc.trace''] else cmdline))
      | _ \<Rightarrow> Inl TypeError)"

subsection \<open>The world outside the module\<close>

text \<open>
  What the module calls and does not define: the path functions of \<^verbatim>\<open>os.path\<close>, the
  directory listing behind \<^verbatim>\<open>Path( folder ).glob( pattern )\<close>, \<^verbatim>\<open>json.loads\<close>, the process
  started by \<^verbatim>\<open>subprocess.run\<close>, and, from the rest of ycmd,
  \<^verbatim>\<open>utils.PathsToAllParentFolders\<close>, \<^verbatim>\<open>utils.FindExecutableWithFallback\<close> and the hover query
  of the language-server completer.  They are parameters: every theorem below holds for
  all of them.
\<close>

datatype hover_outcome =
    HoverContents pyval
  | NoHoverInfo
  | HoverRaised string

record world =
  abspath :: "string \<Rightarrow> string"
  dirname :: "string \<Rightarrow> string"
  PathsToAllParentFolders :: "string \<Rightarrow> string list"
  glob :: "string \<Rightarrow> string \<Rightarrow> string list"
  GetHoverResponse :: "pyval \<Rightarrow> hover_outcome"
  json_loads :: "string \<Rightarrow> pyval option"
  run_process :: "string list \<Rightarrow> error + int \<times> string"
  FindExecutableWithFallback :: "pyval \<Rightarrow> string \<Rightarrow> pyval"
  PATH_TO_GOPLS :: string

text \<open>Sequencing: the first exception ends the computation.\<close>

definition py_bind :: "error + 'a \<Rightarrow> ('a \<Rightarrow> error + 'b) \<Rightarrow> error + 'b" where
  "py_bind m f = (case m of Inl e \<Rightarrow> Inl e | Inr v \<Rightarrow> f v)"

subsection \<open>\<^verbatim>\<open>GetGoModCachePath\<close>\<close>

text \<open>
  \<^verbatim>\<open>subprocess.run( cmd, capture_output=True, text=True, check=check )\<close>: starting the
  process may raise; with \<open>check\<close>, an exit status other than 0 raises
  \<^verbatim>\<open>CalledProcessError\<close>.  The result is the captured standard output.
\<close>

definition subprocess_run :: "world \<Rightarrow> string list \<Rightarrow> bool \<Rightarrow> error + string" where
  "subprocess_run w cmd check =
     (case run_process w cmd of
        Inl e \<Rightarrow> Inl e
      | Inr (returncode, stdout) \<Rightarrow>
          if check \<and> returncode \<noteq> 0 then Inl (CalledProcessError returncode) else Inr stdout)"

text \<open>A record of \<^verbatim>\<open>utils.LOGGER.info( fmt, e )\<close>.\<close>

datatype log_entry = LogInfo string error

text \<open>Only \<^verbatim>\<open>subprocess.CalledProcessError\<close> is caught; any other exception leaves.\<close>

definition GetGoModCachePath :: "world \<Rightarrow> (error + pyval list) \<times> log_entry list" where
  "GetGoModCachePath w =
     (case subprocess_run w [''go'', ''env'', ''GOMODCACHE''] True of
        Inr stdout \<Rightarrow> (Inr [PStr (strip stdout)], [])
      | Inl (CalledProcessError rc) \<Rightarrow>
          (Inr [], [LogInfo ''Error getting GOMODCACHE: %s'' (CalledProcessError rc)])
      | Inl e \<Rightarrow> (Inl e, []))"

subsection \<open>\<^verbatim>\<open>GoCompleter.__init__\<close>\<close>

text \<open>
  \<open>base\<close> is the object as \<^verbatim>\<open>super().__init__( user_options )\<close> leaves it, and
  \<open>PATHS_TO_GO_MOD_CACHE\<close> the module constant computed at import.
  \<^verbatim>\<open>user_options[ k ]\<close> raises \<^verbatim>\<open>KeyError\<close> on a missing key, \<^verbatim>\<open>user_options.get( k )\<close>
  gives \<^verbatim>\<open>None\<close>.
\<close>

definition GoCompleter_init ::
  "world \<Rightarrow> pyval list \<Rightarrow> completer \<Rightarrow> (string \<times> pyval) list \<Rightarrow> error + completer" where
  "GoCompleter_init w PATHS_TO_GO_MOD_CACHE base user_options =
     py_bind (py_getitem (PDict user_options) ''gopls_args'') (\<lambda>args.
     py_bind (py_getitem (PDict user_options) ''gopls_binary_path'') (\<lambda>binary_path.
       Inr (base\<lparr>
         user_supplied_gopls_args := args,
         gopls_path := FindExecutableWithFallback w binary_path (PATH_TO_GOPLS w),
         excluded_workspace_paths :=
           (case map_of user_options ''gopls_excluded_workspace_paths'' of
              Some (PList excluded) \<Rightarrow> excluded
            | _ \<Rightarrow> PATHS_TO_GO_MOD_CACHE)\<rparr>)))"

subsection \<open>\<^verbatim>\<open>GetWorkspaceForFilepath\<close>\<close>

definition GetProjectRootFiles :: "string list" where
  "GetProjectRootFiles = [''go.mod'']"

text \<open>
  \<^verbatim>\<open>any( excluded_path in filepath_abs for excluded_path in ... )\<close> stops at the first
  pattern that occurs; \<^verbatim>\<open>x in filepath_abs\<close> is a \<^verbatim>\<open>TypeError\<close> when \<open>x\<close> is not a string.
\<close>

fun any_excluded :: "pyval list \<Rightarrow> string \<Rightarrow> error + bool" where
  "any_excluded [] filepath_abs = Inr False"
| "any_excluded (PStr excluded_path # rest) filepath_abs =
     (if str_contains filepath_abs excluded_path then Inr True
      else any_excluded rest filepath_abs)"
| "any_excluded (v # rest) filepath_abs = Inl TypeError"

text \<open>
  The calls that look at directories, in the order they are made.  The inner loop tries
  each root file in one folder; \<^verbatim>\<open>next( Path( folder ).glob( root_file ), [] )\<close> is true
  exactly when the glob yields something.
\<close>

datatype fs_call = WalkParents string | Glob string string

fun find_root_file :: "world \<Rightarrow> string \<Rightarrow> string list \<Rightarrow> bool \<times> fs_call list" where
  "find_root_file w folder [] = (False, [])"
| "find_root_file w folder (root_file # rest) =
     (if glob w folder root_file \<noteq> [] then (True, [Glob folder root_file])
      else (case find_root_file w folder rest of
              (found, calls) \<Rightarrow> (found, Glob folder root_file # calls)))"

fun find_workspace ::
  "world \<Rightarrow> string list \<Rightarrow> string list \<Rightarrow> string option \<times> fs_call list" where
  "find_workspace w [] project_root_files = (None, [])"
| "find_workspace w (folder # rest) project_root_files =
     (case find_root_file w folder project_root_files of
        (True, calls) \<Rightarrow> (Some folder, calls)
      | (False, calls) \<Rightarrow>
          (case find_workspace w rest project_root_files of
             (r, calls') \<Rightarrow> (r, calls @ calls')))"

definition GetWorkspaceForFilepath ::
  "world \<Rightarrow> completer \<Rightarrow> string \<Rightarrow> bool \<Rightarrow> (error + string option) \<times> fs_call list" where
  "GetWorkspaceForFilepath w self filepath strict =
     (let filepath_abs = abspath w filepath
      in case any_excluded (excluded_workspace_paths self) filepath_abs of
           Inl e \<Rightarrow> (Inl e, [])
         | Inr True \<Rightarrow> (Inr None, [])
         | Inr False \<Rightarrow>
             (case find_workspace w (PathsToAllParentFolders w filepath) GetProjectRootFiles of
                (Some folder, calls) \<Rightarrow> (Inr (Some folder), WalkParents filepath # calls)
              | (None, calls) \<Rightarrow>
                  (Inr (if strict then None else Some (dirname w filepath)),
                   WalkParents filepath # calls)))"

subsection \<open>\<^verbatim>\<open>GetDoc\<close> and \<^verbatim>\<open>GetType\<close>\<close>

text \<open>
  The hover query of the language-server completer either returns the hover contents,
  raises \<^verbatim>\<open>NoHoverInfoException\<close>, or raises something else.  \<^verbatim>\<open>json.loads\<close> wants a string.
  \<^verbatim>\<open>responses.BuildDetailedInfoResponse\<close> and \<^verbatim>\<open>responses.BuildDisplayMessageResponse\<close> are
  not defined in the module; a response is kept as the name of its builder and the value
  it was built from.
\<close>

fun hover_result :: "hover_outcome \<Rightarrow> error + pyval" where
  "hover_result (HoverContents v) = Inr v"
| "hover_result NoHoverInfo = Inl NoHoverInfoException"
| "hover_result (HoverRaised m) = Inl (EngineError m)"

fun py_json_loads :: "world \<Rightarrow> pyval \<Rightarrow> error + pyval" where
  "py_json_loads w (PStr s) =
     (case json_loads w s of None \<Rightarrow> Inl JSONDecodeError | Some v \<Rightarrow> Inr v)"
| "py_json_loads w v = Inl TypeError"

datatype response = DetailedInfoResponse pyval | DisplayMessageResponse pyval

datatype engine_call = HoverQuery pyval

text \<open>
  The body of the \<^verbatim>\<open>try\<close> of \<^verbatim>\<open>GetDoc\<close>.  Python evaluates
  \<^verbatim>\<open>result[ 'signature' ] + '\n' + result[ 'fullDocumentation' ]\<close> from left to right: the
  first sum is computed before the second field is read.
\<close>

definition GetDoc_try :: "world \<Rightarrow> pyval \<Rightarrow> error + response" where
  "GetDoc_try w request_data =
     py_bind (hover_result (GetHoverResponse w request_data)) (\<lambda>hover.
     py_bind (py_getitem hover ''value'') (\<lambda>value.
     py_bind (py_json_loads w value) (\<lambda>result.
     py_bind (py_getitem result ''signature'') (\<lambda>signature.
     py_bind (py_add_str signature [CHR 0x0A]) (\<lambda>signature_nl.
     py_bind (py_getitem result ''fullDocumentation'') (\<lambda>fullDocumentation.
     py_bind (py_str_add signature_nl fullDocumentation) (\<lambda>docs.
       Inr (DetailedInfoResponse (PStr (strip docs))))))))))"

text \<open>
  \<^verbatim>\<open>self._settings[ 'ls' ][ 'hoverKind' ]\<close>, read through the store.
\<close>

definition hoverKind :: "store \<Rightarrow> completer \<Rightarrow> error + pyval" where
  "hoverKind h self =
     (case map_of (settings self) ''ls'' of
        None \<Rightarrow> Inl (KeyError ''ls'')
      | Some r \<Rightarrow> store_get h r ''hoverKind'')"

text \<open>
  The result comes with the calls made to the protocol engine.  The \<^verbatim>\<open>assert\<close> comes
  first; the \<^verbatim>\<open>except\<close> clause turns \<^verbatim>\<open>NoHoverInfoException\<close>, and nothing else, into a
  \<^verbatim>\<open>RuntimeError\<close>.
\<close>

definition GetDoc ::
  "world \<Rightarrow> store \<Rightarrow> completer \<Rightarrow> pyval \<Rightarrow> (error + response) \<times> engine_call list" where
  "GetDoc w h self request_data =
     (case hoverKind h self of
        Inl e \<Rightarrow> (Inl e, [])
      | Inr kind \<Rightarrow>
          if kind \<noteq> PStr ''Structured'' then (Inl AssertionError, [])
          else
            (case GetDoc_try w request_data of
               Inl NoHoverInfoException \<Rightarrow> Inl (RuntimeError ''No documentation available.'')
             | r \<Rightarrow> r,
             [HoverQuery request_data]))"

definition GetType_try :: "world \<Rightarrow> pyval \<Rightarrow> error + response" where
  "GetType_try w request_data =
     py_bind (hover_result (GetHoverResponse w request_data)) (\<lambda>hover.
     py_bind (py_getitem hover ''value'') (\<lambda>value.
     py_bind (py_json_loads w value) (\<lambda>decoded.
     py_bind (py_getitem decoded ''signature'') (\<lambda>result.
       Inr (DisplayMessageResponse result)))))"

definition GetType :: "world \<Rightarrow> pyval \<Rightarrow> (error + response) \<times> engine_call list" where
  "GetType w request_data =
     (case GetType_try w request_data of
        Inl NoHoverInfoException \<Rightarrow> Inl (RuntimeError ''Unknown type.'')
      | r \<Rightarrow> r,
      [HoverQuery request_data])"

subsection \<open>\<^verbatim>\<open>DefaultSettings\<close> and \<^verbatim>\<open>WorkspaceConfigurationResponse\<close>\<close>

definition DefaultSettings :: pyval where
  "DefaultSettings =
     PDict [
       (''hoverKind'', PStr ''Structured''),
       (''hints'', PDict [
          (''assignVariableTypes'', PBool True),
          (''compositeLiteralFields'', PBool True),
          (''compositeLiteralTypes'', PBool True),
          (''constantValues'', PBool True),
          (''functionTypeParameters'', PBool True),
          (''parameterNames'', PBool True),
          (''rangeVariableTypes'', PBool True)]),
       (''semanticTokens'', PBool True)]"

text \<open>
  \<^verbatim>\<open>self._settings.get( 'ls', {} )\<close>: the object stored under \<^verbatim>\<open>'ls'\<close> when there is one,
  otherwise the dict that the display \<^verbatim>\<open>{}\<close> has just created.  (Python creates that dict
  at every evaluation; when it is not returned nothing refers to it, and the model does
  not allocate it.)
\<close>

definition settings_get_ls :: "store \<Rightarrow> completer \<Rightarrow> ref \<times> store" where
  "settings_get_ls h self =
     (case map_of (settings self) ''ls'' of
        Some r \<Rightarrow> (r, h)
      | None \<Rightarrow> alloc h (PDict []))"

text \<open>The list comprehension: the expression is evaluated once for each item, in order.\<close>

fun settings_for_items :: "store \<Rightarrow> completer \<Rightarrow> pyval list \<Rightarrow> ref list \<times> store" where
  "settings_for_items h self [] = ([], h)"
| "settings_for_items h self (i # rest) =
     (case settings_get_ls h self of
        (r, h1) \<Rightarrow>
          (case settings_for_items h1 self rest of
             (rs, h2) \<Rightarrow> (r # rs, h2)))"

text \<open>
  What \<^verbatim>\<open>for i in x\<close> runs over: the elements of a list, the characters of a string, the
  keys of a dict; anything else is not iterable.
\<close>

fun py_iter :: "pyval \<Rightarrow> error + pyval list" where
  "py_iter (PList xs) = Inr xs"
| "py_iter (PStr s) = Inr (map (\<lambda>c. PStr [c]) s)"
| "py_iter (PDict kvs) = Inr (map PStr (remdups (map fst kvs)))"
| "py_iter v = Inl TypeError"

definition WorkspaceConfigurationResponse ::
  "store \<Rightarrow> completer \<Rightarrow> pyval \<Rightarrow> (error + ref list) \<times> store" where
  "WorkspaceConfigurationResponse h self request =
     (case py_bind (py_getitem request ''params'') (\<lambda>params.
           py_bind (py_getitem params ''items'') py_iter) of
        Inl e \<Rightarrow> (Inl e, h)
      | Inr items \<Rightarrow>
          (case settings_for_items h self items of (rs, h') \<Rightarrow> (Inr rs, h')))"

subsection \<open>A small world for the examples\<close>

text \<open>
  \<^verbatim>\<open>posixpath.dirname\<close>: everything up to the last slash, without the slashes at its end
  unless it consists of slashes only.
\<close>

definition posix_dirname :: "string \<Rightarrow> string" where
  "posix_dirname p =
     (let head = rev (dropWhile (\<lambda>c. c \<noteq> CHR ''/'') (rev p))
      in if head \<noteq> [] \<and> \<not> list_all (\<lambda>c. c = CHR ''/'') head
         then rev (dropWhile (\<lambda>c. c = CHR ''/'') (rev head))
         else head)"

text \<open>
  Modelled from the spec: \<^verbatim>\<open>utils.PathsToAllParentFolders\<close> is not part of the module; the
  spec has it enumerate the ancestor directories of the path from nearest to farthest.
  Here: the parent, the parent of the parent, and so on until \<open>posix_dirname\<close> no longer
  changes the folder.
\<close>

function parent_folders :: "string \<Rightarrow> string list" where
  "parent_folders folder =
     (if posix_dirname folder = folder then []
      else posix_dirname folder # parent_folders (posix_dirname folder))"
  by pat_completeness auto
termination
proof (relation "measure length")
  show "wf (measure length)"
    by simp
next
  fix folder :: string
  assume changed: "posix_dirname folder \<noteq> folder"
  let ?ys = "dropWhile (\<lambda>c. c \<noteq> CHR ''/'') (rev folder)"
  have 1: "suffix ?ys (rev folder)"
    by (rule suffix_dropWhile)
  have 2: "suffix (dropWhile (\<lambda>c. c = CHR ''/'') ?ys) (rev folder)"
    using suffix_dropWhile 1 by (rule suffix_order.trans)
  have "prefix (rev ?ys) folder" "prefix (rev (dropWhile (\<lambda>c. c = CHR ''/'') ?ys)) folder"
    using 1 2 by (simp_all add: suffix_to_prefix)
  then have "prefix (posix_dirname folder) folder"
    unfolding posix_dirname_def Let_def by simp
  with changed have "length (posix_dirname folder) < length folder"
    by (metis le_neq_implies_less prefix_length_le prefix_order.eq_iff prefix_length_prefix)
  then show "(posix_dirname folder, folder) \<in> measure length"
    by simp
qed

declare parent_folders.simps [simp del]

text \<open>
  A machine whose working directory is \<^verbatim>\<open>/home/user\<close>, with a \<^verbatim>\<open>go.mod\<close> in
  \<^verbatim>\<open>/home/user/proj\<close> and another one in \<^verbatim>\<open>/home/user\<close>; the paths of the examples are
  normalised, so that making them absolute only prepends the working directory.  The
  \<^verbatim>\<open>go\<close> tool reports the module cache \<^verbatim>\<open>/home/user/go/pkg/mod\<close>.  The server knows one
  symbol, \<^verbatim>\<open>F\<close>.
\<close>

definition example_json :: string where
  "example_json =
     ''{'' @ [CHR 0x22] @ ''signature'' @ [CHR 0x22] @ '': '' @
       [CHR 0x22] @ ''func F() error'' @ [CHR 0x22] @ '', '' @
       [CHR 0x22] @ ''fullDocumentation'' @ [CHR 0x22] @ '': '' @
       [CHR 0x22] @ ''Does X.'' @ [CHR 0x22] @ ''}''"

definition example_world :: world where
  "example_world = \<lparr>
     abspath = (\<lambda>p. if prefix ''/'' p then p else ''/home/user/'' @ p),
     dirname = posix_dirname,
     PathsToAllParentFolders = parent_folders,
     glob = (\<lambda>folder pattern.
       if pattern = ''go.mod'' \<and> (folder = ''/home/user/proj'' \<or> folder = ''/home/user'')
       then [folder @ ''/'' @ pattern] else []),
     GetHoverResponse = (\<lambda>request_data.
       if request_data = PStr ''F''
       then HoverContents (PDict [(''kind'', PStr ''markdown''), (''value'', PStr example_json)])
       else NoHoverInfo),
     json_loads = (\<lambda>s.
       if s = example_json
       then Some (PDict [(''signature'', PStr ''func F() error''),
                         (''fullDocumentation'', PStr ''Does X.'')])
       else None),
     run_process = (\<lambda>cmd.
       if cmd = [''go'', ''env'', ''GOMODCACHE'']
       then Inr (0, ''/home/user/go/pkg/mod'' @ [CHR 0x0A])
       else Inl FileNotFoundError),
     FindExecutableWithFallback = (\<lambda>binary_path fallback.
       case binary_path of PStr p \<Rightarrow> PStr p | _ \<Rightarrow> PStr fallback),
     PATH_TO_GOPLS = ''/opt/ycmd/third_party/go/bin/gopls'' \<rparr>"

text \<open>
  The store after the settings have been set up: the default settings at address 0, and a
  completer whose settings refer to them.
\<close>

definition example_store :: store where
  "example_store = \<lparr> objects = (\<lambda>r. if r = 0 then DefaultSettings else PNone), next_ref = 1 \<rparr>"

definition example_completer :: completer where
  "example_completer = \<lparr>
     user_supplied_gopls_args = PList [PStr ''-remote=auto''],
     gopls_path = PStr ''/opt/ycmd/third_party/go/bin/gopls'',
     excluded_workspace_paths = [PStr ''/home/user/go/pkg/mod''],
     stderr_file = PStr ''/tmp/gopls_stderr.log'',
     settings = [(''ls'', 0)] \<rparr>"

text \<open>
  The same machine with a server that pads its answers: the signature begins, and the
  documentation ends, with every white-space character below 256.  The JSON text has
  them as the escapes JSON requires.
\<close>

definition example_white_space :: string where
  "example_white_space =
     [CHR 0x20, CHR 0x09, CHR 0x0A, CHR 0x0B, CHR 0x0C, CHR 0x0D,
      CHR 0x1C, CHR 0x1D, CHR 0x1E, CHR 0x1F, CHR 0x85, CHR 0xA0]"

definition example_white_space_json :: string where
  "example_white_space_json =
     '' '' @ concat (map (\<lambda>escape. CHR 0x5C # escape)
       [''t'', ''n'', ''u000b'', ''f'', ''r'',
        ''u001c'', ''u001d'', ''u001e'', ''u001f'', ''u0085'', ''u00a0''])"

definition example_json_padded :: string where
  "example_json_padded =
     ''{'' @ [CHR 0x22] @ ''signature'' @ [CHR 0x22] @ '': '' @
       [CHR 0x22] @ example_white_space_json @ ''func F() error'' @ [CHR 0x22] @ '', '' @
       [CHR 0x22] @ ''fullDocumentation'' @ [CHR 0x22] @ '': '' @
       [CHR 0x22] @ ''Does X.'' @ example_white_space_json @ [CHR 0x22] @ ''}''"

definition example_world_padded :: world where
  "example_world_padded = example_world \<lparr>
     GetHoverResponse := (\<lambda>request_data.
       if request_data = PStr ''F''
       then HoverContents
         (PDict [(''kind'', PStr ''markdown''), (''value'', PStr example_json_padded)])
       else NoHoverInfo),
     json_loads := (\<lambda>s.
       if s = example_json_padded
       then Some (PDict [(''signature'', PStr (example_white_space @ ''func F() error'')),
                         (''fullDocumentation'', PStr (''Does X.'' @ example_white_space))])
       else None) \<rparr>"

text \<open>
  A configuration request of the server for two sections, and a completer whose settings
  have not been set up.
\<close>

definition example_request :: pyval where
  "example_request =
     PDict [
       (''id'', PInt 7),
       (''method'', PStr ''workspace/configuration''),
       (''params'', PDict [
          (''items'', PList [PDict [(''section'', PStr ''gopls'')],
                             PDict [(''section'', PStr ''gopls'')]])])]"

definition example_completer_no_settings :: completer where
  "example_completer_no_settings = example_completer\<lparr>settings := []\<rparr>"

text \<open>The class of the exception a call ended with, if it ended with one.\<close>

fun raised_class :: "error + 'a \<Rightarrow> string option" where
  "raised_class (Inl e) = Some (exception_class e)"
| "raised_class (Inr v) = None"

section \<open>Properties\<close>

subsection \<open>Substrings and the exclusion test\<close>

lemma str_contains_sublist: "str_contains s sub \<longleftrightarrow> sublist sub s"
  by (induction s) (auto simp: sublist_Cons_right)

lemma str_contains_iff:
  "str_contains s sub \<longleftrightarrow> (\<exists>before after. s = before @ sub @ after)"
  by (simp add: str_contains_sublist sublist_def)

lemma any_excluded_strings:
  "any_excluded (map PStr patterns) a = Inr (\<exists>pattern\<in>set patterns. str_contains a pattern)"
  by (induction patterns) auto

subsection \<open>The walk over the parent folders\<close>

lemma find_root_file_go_mod:
  "find_root_file w folder GetProjectRootFiles =
     (glob w folder ''go.mod'' \<noteq> [], [Glob folder ''go.mod''])"
  by (simp add: GetProjectRootFiles_def)

lemma find_workspace_none:
  "\<forall>folder\<in>set folders. glob w folder ''go.mod'' = [] \<Longrightarrow>
   find_workspace w folders GetProjectRootFiles =
     (None, map (\<lambda>folder. Glob folder ''go.mod'') folders)"
  by (induction folders) (auto simp: find_root_file_go_mod)

lemma find_workspace_first:
  "\<forall>folder\<in>set nearer. glob w folder ''go.mod'' = [] \<Longrightarrow> glob w d ''go.mod'' \<noteq> [] \<Longrightarrow>
   find_workspace w (nearer @ d # farther) GetProjectRootFiles =
     (Some d, map (\<lambda>folder. Glob folder ''go.mod'') (nearer @ [d]))"
  by (induction nearer) (auto simp: find_root_file_go_mod)

lemma parent_folders_proj:
  "parent_folders ''/home/user/proj/pkg/main.go'' =
     [''/home/user/proj/pkg'', ''/home/user/proj'', ''/home/user'', ''/home'', ''/'']"
  by (simp add: parent_folders.simps posix_dirname_def)

lemma parent_folders_srv:
  "parent_folders ''/srv/code/main.go'' = [''/srv/code'', ''/srv'', ''/'']"
  by (simp add: parent_folders.simps posix_dirname_def)

text \<open>
  C1.  The exclusion set is a list of string patterns.  When the absolute form of the
  file path contains one of them as a substring, \<open>GetWorkspaceForFilepath\<close> returns
  \<^verbatim>\<open>None\<close>, with \<open>strict\<close> and without, and it has made no call that looks at a directory:
  the test comes before the walk over the parent folders.
\<close>

theorem GetWorkspaceForFilepath_excluded:
  assumes "excluded_workspace_paths self = map PStr patterns"
    and "pattern \<in> set patterns"
    and "abspath w filepath = before @ pattern @ after"
  shows "GetWorkspaceForFilepath w self filepath True = (Inr None, []) \<and>
         GetWorkspaceForFilepath w self filepath False = (Inr None, [])"
proof -
  have "str_contains (abspath w filepath) pattern"
    using assms(3) by (auto simp: str_contains_iff)
  with assms(2)
  have "any_excluded (excluded_workspace_paths self) (abspath w filepath) = Inr True"
    by (auto simp: assms(1) any_excluded_strings)
  then show ?thesis
    by (simp add: GetWorkspaceForFilepath_def)
qed

theorem GetWorkspaceForFilepath_excluded_witness:
  "abspath example_world ''/home/user/go/pkg/mod/x/y.go'' =
     [] @ ''/home/user/go/pkg/mod'' @ ''/x/y.go'' \<and>
   GetWorkspaceForFilepath example_world example_completer
     ''/home/user/go/pkg/mod/x/y.go'' True = (Inr None, []) \<and>
   GetWorkspaceForFilepath example_world example_completer
     ''/home/user/go/pkg/mod/x/y.go'' False = (Inr None, [])"
proof -
  have 1: "excluded_workspace_paths example_completer = map PStr [''/home/user/go/pkg/mod'']"
    by (simp add: example_completer_def)
  have 2: "''/home/user/go/pkg/mod'' \<in> set [''/home/user/go/pkg/mod'']"
    by simp
  have 3: "abspath example_world ''/home/user/go/pkg/mod/x/y.go'' =
      [] @ ''/home/user/go/pkg/mod'' @ ''/x/y.go''"
    by (simp add: example_world_def)
  show ?thesis
    using 3 GetWorkspaceForFilepath_excluded [OF 1 2 3] by blast
qed

text \<open>
  C2.  When no pattern of the exclusion set occurs in the absolute form of the path and
  some folder of the enumeration of parent folders (nearest first) holds a \<^verbatim>\<open>go.mod\<close>,
  the result is the first such folder of the enumeration, whatever \<open>strict\<close> is.  The
  folders after it are not looked at, so a farther folder with a \<^verbatim>\<open>go.mod\<close> cannot be
  chosen.
\<close>

theorem GetWorkspaceForFilepath_nearest_root:
  assumes "excluded_workspace_paths self = map PStr patterns"
    and "\<forall>pattern\<in>set patterns. \<not> (\<exists>before after. abspath w filepath = before @ pattern @ after)"
    and "PathsToAllParentFolders w filepath = nearer @ d # farther"
    and "\<forall>folder\<in>set nearer. glob w folder ''go.mod'' = []"
    and "glob w d ''go.mod'' \<noteq> []"
  shows "GetWorkspaceForFilepath w self filepath strict =
           (Inr (Some d),
            WalkParents filepath # map (\<lambda>folder. Glob folder ''go.mod'') (nearer @ [d]))"
proof -
  have "any_excluded (excluded_workspace_paths self) (abspath w filepath) = Inr False"
    using assms(2) by (simp add: assms(1) any_excluded_strings str_contains_iff)
  moreover have "find_workspace w (PathsToAllParentFolders w filepath) GetProjectRootFiles =
      (Some d, map (\<lambda>folder. Glob folder ''go.mod'') (nearer @ [d]))"
    unfolding assms(3) using assms(4,5) by (rule find_workspace_first)
  ultimately show ?thesis
    by (simp add: GetWorkspaceForFilepath_def)
qed

theorem GetWorkspaceForFilepath_nearest_root_witness:
  "glob example_world ''/home/user'' ''go.mod'' \<noteq> [] \<and>
   fst (GetWorkspaceForFilepath example_world example_completer
     ''/home/user/proj/pkg/main.go'' True) = Inr (Some ''/home/user/proj'') \<and>
   fst (GetWorkspaceForFilepath example_world example_completer
     ''/home/user/proj/pkg/main.go'' False) = Inr (Some ''/home/user/proj'')"
proof -
  let ?p = "''/home/user/proj/pkg/main.go''"
  have 1: "excluded_workspace_paths example_completer = map PStr [''/home/user/go/pkg/mod'']"
    by (simp add: example_completer_def)
  have "\<not> str_contains (abspath example_world ?p) ''/home/user/go/pkg/mod''"
    by (simp add: example_world_def)
  then have 2: "\<forall>pattern\<in>set [''/home/user/go/pkg/mod''].
      \<not> (\<exists>before after. abspath example_world ?p = before @ pattern @ after)"
    by (simp add: str_contains_iff)
  have 3: "PathsToAllParentFolders example_world ?p =
      [''/home/user/proj/pkg''] @ ''/home/user/proj'' # [''/home/user'', ''/home'', ''/'']"
    by (simp add: example_world_def parent_folders_proj)
  have 4: "\<forall>folder\<in>set [''/home/user/proj/pkg'']. glob example_world folder ''go.mod'' = []"
    by (simp add: example_world_def)
  have 5: "glob example_world ''/home/user/proj'' ''go.mod'' \<noteq> []"
    by (simp add: example_world_def)
  have 6: "glob example_world ''/home/user'' ''go.mod'' \<noteq> []"
    by (simp add: example_world_def)
  show ?thesis
    using 6 GetWorkspaceForFilepath_nearest_root [OF 1 2 3 4 5] by simp
qed

text \<open>
  C3.  When no pattern of the exclusion set occurs in the absolute form of the path and
  no folder of the enumeration of parent folders holds a \<^verbatim>\<open>go.mod\<close>, the call returns
  normally: \<^verbatim>\<open>None\<close> with \<open>strict\<close>, and \<^verbatim>\<open>os.path.dirname( filepath )\<close> without.
\<close>

theorem GetWorkspaceForFilepath_no_root:
  assumes "excluded_workspace_paths self = map PStr patterns"
    and "\<forall>pattern\<in>set patterns. \<not> (\<exists>before after. abspath w filepath = before @ pattern @ after)"
    and "\<forall>folder\<in>set (PathsToAllParentFolders w filepath). glob w folder ''go.mod'' = []"
  shows "fst (GetWorkspaceForFilepath w self filepath True) = Inr None \<and>
         fst (GetWorkspaceForFilepath w self filepath False) = Inr (Some (dirname w filepath))"
proof -
  have "any_excluded (excluded_workspace_paths self) (abspath w filepath) = Inr False"
    using assms(2) by (simp add: assms(1) any_excluded_strings str_contains_iff)
  then show ?thesis
    using find_workspace_none [OF assms(3)]
    by (simp add: GetWorkspaceForFilepath_def)
qed

theorem GetWorkspaceForFilepath_no_root_witness:
  "fst (GetWorkspaceForFilepath example_world example_completer ''/srv/code/main.go'' True) =
     Inr None \<and>
   fst (GetWorkspaceForFilepath example_world example_completer ''/srv/code/main.go'' False) =
     Inr (Some ''/srv/code'')"
proof -
  let ?p = "''/srv/code/main.go''"
  have 1: "excluded_workspace_paths example_completer = map PStr [''/home/user/go/pkg/mod'']"
    by (simp add: example_completer_def)
  have "\<not> str_contains (abspath example_world ?p) ''/home/user/go/pkg/mod''"
    by (simp add: example_world_def)
  then have 2: "\<forall>pattern\<in>set [''/home/user/go/pkg/mod''].
      \<not> (\<exists>before after. abspath example_world ?p = before @ pattern @ after)"
    by (simp add: str_contains_iff)
  have 3: "\<forall>folder\<in>set (PathsToAllParentFolders example_world ?p).
      glob example_world folder ''go.mod'' = []"
    by (simp add: example_world_def parent_folders_srv)
  have 4: "dirname example_world ?p = ''/srv/code''"
    by (simp add: example_world_def posix_dirname_def)
  show ?thesis
    using GetWorkspaceForFilepath_no_root [OF 1 2 3] by (simp add: 4)
qed

subsection \<open>The command line\<close>

text \<open>
  C4, as stated, fails: the user-supplied arguments are copied into the command line as
  they are.  With \<^verbatim>\<open>-logfile\<close> and \<^verbatim>\<open>-rpc.trace\<close> among them and debug logging off, the
  command line holds \<^verbatim>\<open>-logfile\<close> twice and holds \<^verbatim>\<open>-rpc.trace\<close>.
\<close>

theorem GetCommandLine_user_flags_counterexample:
  "GetCommandLine
     (example_completer\<lparr>user_supplied_gopls_args :=
        PList [PStr ''-logfile'', PStr ''/tmp/mine.log'', PStr ''-rpc.trace'']\<rparr>) False =
     Inr [PStr ''/opt/ycmd/third_party/go/bin/gopls'',
          PStr ''-logfile'', PStr ''/tmp/mine.log'', PStr ''-rpc.trace'',
          PStr ''-logfile'', PStr ''/tmp/gopls_stderr.log''] \<and>
   count_list (projr (GetCommandLine
     (example_completer\<lparr>user_supplied_gopls_args :=
        PList [PStr ''-logfile'', PStr ''/tmp/mine.log'', PStr ''-rpc.trace'']\<rparr>) False))
     (PStr ''-logfile'') = 2 \<and>
   PStr ''-rpc.trace'' \<in> set (projr (GetCommandLine
     (example_completer\<lparr>user_supplied_gopls_args :=
        PList [PStr ''-logfile'', PStr ''/tmp/mine.log'', PStr ''-rpc.trace'']\<rparr>) False))"
  by (simp add: GetCommandLine_def example_completer_def)

text \<open>
  C4, amended.  When the user-supplied arguments are a list and neither they, nor the
  server path, nor the path of the log file are one of the two flags, the command line
  holds \<^verbatim>\<open>-logfile\<close> exactly once, and holds \<^verbatim>\<open>-rpc.trace\<close> exactly when debug logging is
  on.
\<close>

theorem GetCommandLine_flags:
  assumes "user_supplied_gopls_args self = PList args"
    and "PStr ''-logfile'' \<notin> set (gopls_path self # stderr_file self # args)"
    and "PStr ''-rpc.trace'' \<notin> set (gopls_path self # stderr_file self # args)"
  shows "\<exists>cmdline. GetCommandLine self debug = Inr cmdline \<and>
           count_list cmdline (PStr ''-logfile'') = 1 \<and>
           (PStr ''-rpc.trace'' \<in> set cmdline \<longleftrightarrow> debug)"
  using assms by (auto simp: GetCommandLine_def Let_def count_list_0_iff)

theorem GetCommandLine_flags_witness:
  "count_list (projr (GetCommandLine example_completer True)) (PStr ''-logfile'') = 1 \<and>
   PStr ''-rpc.trace'' \<in> set (projr (GetCommandLine example_completer True)) \<and>
   count_list (projr (GetCommandLine example_completer False)) (PStr ''-logfile'') = 1 \<and>
   PStr ''-rpc.trace'' \<notin> set (projr (GetCommandLine example_completer False))"
proof -
  have 1: "user_supplied_gopls_args example_completer = PList [PStr ''-remote=auto'']"
    by (simp add: example_completer_def)
  have 2: "PStr ''-logfile'' \<notin> set (gopls_path example_completer #
      stderr_file example_completer # [PStr ''-remote=auto''])"
    by (simp add: example_completer_def)
  have 3: "PStr ''-rpc.trace'' \<notin> set (gopls_path example_completer #
      stderr_file example_completer # [PStr ''-remote=auto''])"
    by (simp add: example_completer_def)
  show ?thesis
    using GetCommandLine_flags [OF 1 2 3, of True] GetCommandLine_flags [OF 1 2 3, of False]
    by auto
qed

subsection \<open>The module cache\<close>

lemma GetGoModCachePath_nonzero_exit:
  "run_process w [''go'', ''env'', ''GOMODCACHE''] = Inr (rc, out) \<Longrightarrow> rc \<noteq> 0 \<Longrightarrow>
   GetGoModCachePath w =
     (Inr [], [LogInfo ''Error getting GOMODCACHE: %s'' (CalledProcessError rc)])"
  by (simp add: GetGoModCachePath_def subprocess_run_def)

lemma GetGoModCachePath_success:
  "run_process w [''go'', ''env'', ''GOMODCACHE''] = Inr (0, out) \<Longrightarrow>
   GetGoModCachePath w = (Inr [PStr (strip out)], [])"
  by (simp add: GetGoModCachePath_def subprocess_run_def)

lemma GetGoModCachePath_example:
  "GetGoModCachePath example_world = (Inr [PStr ''/home/user/go/pkg/mod''], [])"
  by (simp add: GetGoModCachePath_def subprocess_run_def example_world_def strip_def
      lstrip_def rstrip_def py_isspace_def)

text \<open>
  C8.  The claim does not hold of the code: on a machine without the \<^verbatim>\<open>go\<close> tool,
  \<^verbatim>\<open>subprocess.run\<close> raises \<^verbatim>\<open>FileNotFoundError\<close>, which the \<^verbatim>\<open>except\<close> clause for
  \<^verbatim>\<open>CalledProcessError\<close> does not catch: the exception leaves \<open>GetGoModCachePath\<close>, and
  nothing is logged.
\<close>

theorem GetGoModCachePath_go_missing:
  "GetGoModCachePath (example_world\<lparr>run_process := (\<lambda>cmd. Inl FileNotFoundError)\<rparr>) =
     (Inl FileNotFoundError, [])"
  by (simp add: GetGoModCachePath_def subprocess_run_def)

subsection \<open>Construction\<close>

text \<open>
  C10.  With the two options that the constructor reads by subscript present, and the
  option \<^verbatim>\<open>gopls_excluded_workspace_paths\<close> present: when its value is not a list the
  completer excludes the paths of the module constant, when it is a list the completer
  excludes that list.
\<close>

theorem GoCompleter_init_excluded_paths:
  assumes "map_of user_options ''gopls_excluded_workspace_paths'' = Some v"
    and "map_of user_options ''gopls_args'' = Some args"
    and "map_of user_options ''gopls_binary_path'' = Some binary_path"
  shows "\<exists>self. GoCompleter_init w PATHS_TO_GO_MOD_CACHE base user_options = Inr self \<and>
           ((\<forall>excluded. v \<noteq> PList excluded) \<longrightarrow>
              excluded_workspace_paths self = PATHS_TO_GO_MOD_CACHE) \<and>
           (\<forall>excluded. v = PList excluded \<longrightarrow> excluded_workspace_paths self = excluded)"
  using assms by (cases v) (simp_all add: GoCompleter_init_def py_bind_def)

theorem GoCompleter_init_excluded_paths_witness:
  "excluded_workspace_paths (projr (GoCompleter_init example_world
      [PStr ''/home/user/go/pkg/mod''] example_completer
      [(''gopls_args'', PList []), (''gopls_binary_path'', PStr ''gopls''),
       (''gopls_excluded_workspace_paths'', PStr ''/opt/cache'')])) =
     [PStr ''/home/user/go/pkg/mod''] \<and>
   excluded_workspace_paths (projr (GoCompleter_init example_world
      [PStr ''/home/user/go/pkg/mod''] example_completer
      [(''gopls_args'', PList []), (''gopls_binary_path'', PStr ''gopls''),
       (''gopls_excluded_workspace_paths'', PList [PStr ''/opt/cache''])])) =
     [PStr ''/opt/cache'']"
proof -
  let ?str = "[(''gopls_args'', PList []), (''gopls_binary_path'', PStr ''gopls''),
       (''gopls_excluded_workspace_paths'', PStr ''/opt/cache'')]"
  let ?list = "[(''gopls_args'', PList []), (''gopls_binary_path'', PStr ''gopls''),
       (''gopls_excluded_workspace_paths'', PList [PStr ''/opt/cache''])]"
  have s1: "map_of ?str ''gopls_excluded_workspace_paths'' = Some (PStr ''/opt/cache'')"
    by simp
  have s2: "map_of ?str ''gopls_args'' = Some (PList [])"
    by simp
  have s3: "map_of ?str ''gopls_binary_path'' = Some (PStr ''gopls'')"
    by simp
  have l1: "map_of ?list ''gopls_excluded_workspace_paths'' = Some (PList [PStr ''/opt/cache''])"
    by simp
  have l2: "map_of ?list ''gopls_args'' = Some (PList [])"
    by simp
  have l3: "map_of ?list ''gopls_binary_path'' = Some (PStr ''gopls'')"
    by simp
  have n: "\<forall>excluded. PStr ''/opt/cache'' \<noteq> PList excluded"
    by simp
  show ?thesis
    using n
      GoCompleter_init_excluded_paths [OF s1 s2 s3, of example_world
        "[PStr ''/home/user/go/pkg/mod'']" example_completer]
      GoCompleter_init_excluded_paths [OF l1 l2 l3, of example_world
        "[PStr ''/home/user/go/pkg/mod'']" example_completer]
    by auto
qed

subsection \<open>Hover\<close>

lemma hoverKind_example: "hoverKind example_store example_completer = Inr (PStr ''Structured'')"
  by (simp add: hoverKind_def store_get_def example_store_def example_completer_def
      DefaultSettings_def)

lemma py_bind_simps:
  "py_bind (Inl e) f = Inl e"
  "py_bind (Inr v) f = f v"
  by (simp_all add: py_bind_def)

subsection \<open>White space and \<^verbatim>\<open>strip\<close>\<close>

text \<open>The white-space characters below 256, one by one.\<close>

lemma py_isspace_iff:
  "py_isspace c \<longleftrightarrow>
     of_char c \<in> {9, 10, 11, 12, 13, 28, 29, 30, 31, 32, 133, 160 :: nat}"
  unfolding py_isspace_def Let_def by (simp only: insert_iff empty_iff) arith

text \<open>
  What \<open>strip\<close> removes is white space at the two ends, and what it leaves neither begins
  nor ends with white space.  The two properties determine the result.
\<close>

lemma rev_split: "u = rev (dropWhile P (rev u)) @ rev (takeWhile P (rev u))"
proof -
  have "rev (rev u) = rev (takeWhile P (rev u) @ dropWhile P (rev u))"
    by (simp only: takeWhile_dropWhile_id)
  then show ?thesis
    by (simp only: rev_rev_ident rev_append)
qed

lemma dropWhile_keeps: "xs \<noteq> [] \<Longrightarrow> \<not> P (hd xs) \<Longrightarrow> dropWhile P xs = xs"
  by (cases xs) simp_all

lemma strip_decompose:
  "\<exists>leading trailing. t = leading @ strip t @ trailing \<and>
     (\<forall>c\<in>set leading. py_isspace c) \<and> (\<forall>c\<in>set trailing. py_isspace c)"
proof -
  let ?u = "dropWhile py_isspace t"
  let ?leading = "takeWhile py_isspace t"
  let ?trailing = "rev (takeWhile py_isspace (rev ?u))"
  have "?u = strip t @ ?trailing"
    unfolding strip_def lstrip_def rstrip_def by (rule rev_split)
  moreover have "t = ?leading @ ?u"
    by simp
  ultimately have "t = ?leading @ strip t @ ?trailing"
    by simp
  moreover have "\<forall>c\<in>set ?leading. py_isspace c"
    by (auto dest: set_takeWhileD)
  moreover have "\<forall>c\<in>set ?trailing. py_isspace c"
    by (auto dest: set_takeWhileD)
  ultimately show ?thesis
    by blast
qed

lemma strip_ends:
  assumes "strip t \<noteq> []"
  shows "\<not> py_isspace (hd (strip t)) \<and> \<not> py_isspace (last (strip t))"
proof -
  let ?u = "dropWhile py_isspace t"
  let ?v = "dropWhile py_isspace (rev ?u)"
  have s: "strip t = rev ?v"
    by (simp add: strip_def lstrip_def rstrip_def)
  with assms have v: "?v \<noteq> []"
    by simp
  then have "\<not> py_isspace (hd ?v)"
    by (rule hd_dropWhile)
  then have l: "\<not> py_isspace (last (strip t))"
    using v by (simp add: s last_rev)
  have "?u = strip t @ rev (takeWhile py_isspace (rev ?u))"
    unfolding strip_def lstrip_def rstrip_def by (rule rev_split)
  with assms have u: "?u \<noteq> []" and "hd ?u = hd (strip t)"
    by (metis append_is_Nil_conv, metis hd_append2)
  moreover from u have "\<not> py_isspace (hd ?u)"
    by (rule hd_dropWhile)
  ultimately show ?thesis
    using l by simp
qed

lemma strip_unique:
  assumes "t = leading @ docs @ trailing"
    and "\<forall>c\<in>set leading. py_isspace c"
    and "\<forall>c\<in>set trailing. py_isspace c"
    and "docs \<noteq> [] \<longrightarrow> \<not> py_isspace (hd docs) \<and> \<not> py_isspace (last docs)"
  shows "docs = strip t"
proof (cases "docs = []")
  case True
  with assms(1-3) have "\<forall>c\<in>set t. py_isspace c"
    by auto
  then have empty: "dropWhile py_isspace t = []"
    by (simp only: dropWhile_eq_Nil_conv)
  show ?thesis
    unfolding True strip_def lstrip_def rstrip_def empty by simp
next
  case False
  with assms(4) have ends: "\<not> py_isspace (hd docs)" "\<not> py_isspace (last docs)"
    by simp_all
  from False ends(1) have "dropWhile py_isspace (docs @ trailing) = docs @ trailing"
    by (simp add: dropWhile_keeps)
  with assms(2) have 1: "dropWhile py_isspace t = docs @ trailing"
    by (simp add: assms(1) dropWhile_append2)
  from False have "rev docs \<noteq> []" "hd (rev docs) = last docs"
    by (simp_all add: hd_rev)
  with ends(2) have "dropWhile py_isspace (rev docs) = rev docs"
    by (simp add: dropWhile_keeps)
  moreover have "dropWhile py_isspace (rev trailing @ rev docs) =
      dropWhile py_isspace (rev docs)"
    using assms(3) by (intro dropWhile_append2) simp
  ultimately have "dropWhile py_isspace (rev (docs @ trailing)) = rev docs"
    by simp
  with 1 show ?thesis
    by (simp add: strip_def lstrip_def rstrip_def)
qed

text \<open>
  C6.  When the hover query returns contents whose \<^verbatim>\<open>value\<close> is a text that \<^verbatim>\<open>json.loads\<close>
  decodes to a payload with the strings \<open>s\<close> under \<^verbatim>\<open>signature\<close> and \<open>d\<close> under
  \<^verbatim>\<open>fullDocumentation\<close>, \<open>GetDoc\<close> (whose assertion on the hover mode holds) returns the
  detailed-info response of \<open>s\<close>, a newline and \<open>d\<close> trimmed of surrounding white space:
  of a text \<open>docs\<close> that is the concatenation without a run of white space at its
  beginning and a run of white space at its end, and that neither begins nor ends with
  white space.  \<open>GetType\<close> returns the display-message response of \<open>s\<close> as it is.
\<close>

theorem GetDoc_GetType_payload:
  assumes "hoverKind h self = Inr (PStr ''Structured'')"
    and "GetHoverResponse w request_data = HoverContents hover"
    and "py_getitem hover ''value'' = Inr (PStr text)"
    and "json_loads w text = Some payload"
    and "py_getitem payload ''signature'' = Inr (PStr s)"
    and "py_getitem payload ''fullDocumentation'' = Inr (PStr d)"
  shows "\<exists>docs leading trailing.
           fst (GetDoc w h self request_data) = Inr (DetailedInfoResponse (PStr docs)) \<and>
           s @ [CHR 0x0A] @ d = leading @ docs @ trailing \<and>
           (\<forall>c\<in>set leading. py_isspace c) \<and>
           (\<forall>c\<in>set trailing. py_isspace c) \<and>
           (docs \<noteq> [] \<longrightarrow> \<not> py_isspace (hd docs) \<and> \<not> py_isspace (last docs)) \<and>
           fst (GetType w request_data) = Inr (DisplayMessageResponse (PStr s))"
proof -
  let ?t = "s @ [CHR 0x0A] @ d"
  have "fst (GetDoc w h self request_data) = Inr (DetailedInfoResponse (PStr (strip ?t)))"
    and "fst (GetType w request_data) = Inr (DisplayMessageResponse (PStr s))"
    using assms
    by (simp_all add: GetDoc_def GetDoc_try_def GetType_def GetType_try_def py_bind_simps)
  moreover obtain leading trailing where
    "?t = leading @ strip ?t @ trailing"
    "\<forall>c\<in>set leading. py_isspace c" "\<forall>c\<in>set trailing. py_isspace c"
    using strip_decompose [of ?t] by blast
  moreover have "strip ?t \<noteq> [] \<longrightarrow>
      \<not> py_isspace (hd (strip ?t)) \<and> \<not> py_isspace (last (strip ?t))"
    using strip_ends [of ?t] by blast
  ultimately show ?thesis
    by blast
qed

text \<open>
  The example of the spec, and the same symbol on the server that pads its answers: the
  documentation is the same text, the type keeps the white space of the signature.
\<close>

theorem GetDoc_GetType_payload_witness:
  "fst (GetDoc example_world example_store example_completer (PStr ''F'')) =
     Inr (DetailedInfoResponse (PStr (''func F() error'' @ [CHR 0x0A] @ ''Does X.''))) \<and>
   fst (GetType example_world (PStr ''F'')) =
     Inr (DisplayMessageResponse (PStr ''func F() error'')) \<and>
   fst (GetDoc example_world_padded example_store example_completer (PStr ''F'')) =
     Inr (DetailedInfoResponse (PStr (''func F() error'' @ [CHR 0x0A] @ ''Does X.''))) \<and>
   fst (GetType example_world_padded (PStr ''F'')) =
     Inr (DisplayMessageResponse (PStr (example_white_space @ ''func F() error'')))"
proof -
  let ?hover = "PDict [(''kind'', PStr ''markdown''), (''value'', PStr example_json)]"
  let ?payload = "PDict [(''signature'', PStr ''func F() error''),
                         (''fullDocumentation'', PStr ''Does X.'')]"
  let ?t = "''func F() error'' @ [CHR 0x0A] @ ''Does X.''"
  have 1: "GetHoverResponse example_world (PStr ''F'') = HoverContents ?hover"
    by (simp add: example_world_def)
  have 2: "py_getitem ?hover ''value'' = Inr (PStr example_json)"
    by simp
  have 3: "json_loads example_world example_json = Some ?payload"
    by (simp add: example_world_def)
  have 4: "py_getitem ?payload ''signature'' = Inr (PStr ''func F() error'')"
    by simp
  have 5: "py_getitem ?payload ''fullDocumentation'' = Inr (PStr ''Does X.'')"
    by simp
  have 6: "strip ?t = ?t"
    by (simp add: strip_def lstrip_def rstrip_def py_isspace_def)
  obtain docs leading trailing where plain:
    "fst (GetDoc example_world example_store example_completer (PStr ''F'')) =
       Inr (DetailedInfoResponse (PStr docs))"
    "?t = leading @ docs @ trailing"
    "\<forall>c\<in>set leading. py_isspace c" "\<forall>c\<in>set trailing. py_isspace c"
    "docs \<noteq> [] \<longrightarrow> \<not> py_isspace (hd docs) \<and> \<not> py_isspace (last docs)"
    "fst (GetType example_world (PStr ''F'')) =
       Inr (DisplayMessageResponse (PStr ''func F() error''))"
    using GetDoc_GetType_payload [OF hoverKind_example 1 2 3 4 5] by blast
  from plain(2-5) have "docs = strip ?t"
    by (rule strip_unique)
  with 6 have plain_docs: "docs = ?t"
    by simp
  let ?padded_hover = "PDict [(''kind'', PStr ''markdown''), (''value'', PStr example_json_padded)]"
  let ?padded_s = "example_white_space @ ''func F() error''"
  let ?padded_d = "''Does X.'' @ example_white_space"
  let ?padded_payload = "PDict [(''signature'', PStr ?padded_s), (''fullDocumentation'', PStr ?padded_d)]"
  let ?padded_t = "?padded_s @ [CHR 0x0A] @ ?padded_d"
  have p1: "GetHoverResponse example_world_padded (PStr ''F'') = HoverContents ?padded_hover"
    by (simp add: example_world_padded_def)
  have p2: "py_getitem ?padded_hover ''value'' = Inr (PStr example_json_padded)"
    by simp
  have p3: "json_loads example_world_padded example_json_padded = Some ?padded_payload"
    by (simp add: example_world_padded_def)
  have p4: "py_getitem ?padded_payload ''signature'' = Inr (PStr ?padded_s)"
    by simp
  have p5: "py_getitem ?padded_payload ''fullDocumentation'' = Inr (PStr ?padded_d)"
    by simp
  have p6: "strip ?padded_t = ?t"
    by (simp add: strip_def lstrip_def rstrip_def py_isspace_def example_white_space_def)
  obtain pdocs pleading ptrailing where padded:
    "fst (GetDoc example_world_padded example_store example_completer (PStr ''F'')) =
       Inr (DetailedInfoResponse (PStr pdocs))"
    "?padded_t = pleading @ pdocs @ ptrailing"
    "\<forall>c\<in>set pleading. py_isspace c" "\<forall>c\<in>set ptrailing. py_isspace c"
    "pdocs \<noteq> [] \<longrightarrow> \<not> py_isspace (hd pdocs) \<and> \<not> py_isspace (last pdocs)"
    "fst (GetType example_world_padded (PStr ''F'')) = Inr (DisplayMessageResponse (PStr ?padded_s))"
    using GetDoc_GetType_payload [OF hoverKind_example p1 p2 p3 p4 p5] by blast
  from padded(2-5) have "pdocs = strip ?padded_t"
    by (rule strip_unique)
  with p6 have "pdocs = ?t"
    by simp
  with plain(1,6) plain_docs padded(1,6) show ?thesis
    by simp
qed

text \<open>
  C7, as stated, fails in one point: the two failures are not of distinct kinds.  Both are
  a \<^verbatim>\<open>RuntimeError\<close>.
\<close>

theorem no_hover_info_same_class_counterexample:
  "raised_class (fst (GetDoc example_world example_store example_completer (PStr ''G''))) =
     Some ''RuntimeError'' \<and>
   raised_class (fst (GetType example_world (PStr ''G''))) = Some ''RuntimeError''"
  by (simp add: GetDoc_def GetDoc_try_def GetType_def GetType_try_def py_bind_simps
      hoverKind_example example_world_def)

text \<open>
  C7, amended.  When the hover query raises \<^verbatim>\<open>NoHoverInfoException\<close>, \<open>GetDoc\<close> (whose
  assertion on the hover mode holds) raises \<^verbatim>\<open>RuntimeError\<close> with the message
  \<^verbatim>\<open>No documentation available.\<close> and \<open>GetType\<close> raises \<^verbatim>\<open>RuntimeError\<close> with the message
  \<^verbatim>\<open>Unknown type.\<close>: the same class of exception with two different fixed messages.  Each
  of them has made one call to the protocol engine, the hover query.
\<close>

theorem no_hover_info_errors:
  assumes "hoverKind h self = Inr (PStr ''Structured'')"
    and "GetHoverResponse w request_data = NoHoverInfo"
  shows "GetDoc w h self request_data =
           (Inl (RuntimeError ''No documentation available.''), [HoverQuery request_data]) \<and>
         GetType w request_data =
           (Inl (RuntimeError ''Unknown type.''), [HoverQuery request_data]) \<and>
         fst (GetDoc w h self request_data) \<noteq> fst (GetType w request_data)"
  using assms
  by (simp add: GetDoc_def GetDoc_try_def GetType_def GetType_try_def py_bind_simps)

theorem no_hover_info_errors_witness:
  "GetDoc example_world example_store example_completer (PStr ''G'') =
     (Inl (RuntimeError ''No documentation available.''), [HoverQuery (PStr ''G'')]) \<and>
   GetType example_world (PStr ''G'') =
     (Inl (RuntimeError ''Unknown type.''), [HoverQuery (PStr ''G'')])"
proof -
  have 1: "GetHoverResponse example_world (PStr ''G'') = NoHoverInfo"
    by (simp add: example_world_def)
  show ?thesis
    using no_hover_info_errors [OF hoverKind_example 1] by simp
qed

subsection \<open>The assertion of GetDoc\<close>

lemma py_bind_eq_Inl:
  "py_bind m f = Inl e \<longleftrightarrow> m = Inl e \<or> (\<exists>v. m = Inr v \<and> f v = Inl e)"
  by (cases m) (simp_all add: py_bind_def)

lemma hover_result_not_assertion: "hover_result x \<noteq> Inl AssertionError"
  by (cases x) simp_all

lemma py_getitem_not_assertion: "py_getitem v k \<noteq> Inl AssertionError"
  by (cases v) (simp_all split: option.splits)

lemma py_json_loads_not_assertion: "py_json_loads w v \<noteq> Inl AssertionError"
  by (cases v) (simp_all split: option.splits)

lemma py_add_str_not_assertion: "py_add_str v b \<noteq> Inl AssertionError"
  by (cases v) simp_all

lemma py_str_add_not_assertion: "py_str_add a v \<noteq> Inl AssertionError"
  by (cases v) simp_all

lemma GetDoc_try_not_assertion: "GetDoc_try w request_data \<noteq> Inl AssertionError"
  unfolding GetDoc_try_def
  by (simp add: py_bind_eq_Inl hover_result_not_assertion py_getitem_not_assertion
      py_json_loads_not_assertion py_add_str_not_assertion py_str_add_not_assertion)

text \<open>
  C9.  \<open>GetDoc\<close> asserts that the hover mode of the settings is \<^verbatim>\<open>Structured\<close>.  With any
  other mode the call ends with \<^verbatim>\<open>AssertionError\<close> before the protocol engine is called.
  With that mode the hover query is made and the call does not end with
  \<^verbatim>\<open>AssertionError\<close>.
\<close>

theorem GetDoc_hover_mode_contract:
  "(hoverKind h self = Inr kind \<and> kind \<noteq> PStr ''Structured'' \<longrightarrow>
      GetDoc w h self request_data = (Inl AssertionError, [])) \<and>
   (hoverKind h self = Inr (PStr ''Structured'') \<longrightarrow>
      fst (GetDoc w h self request_data) \<noteq> Inl AssertionError \<and>
      snd (GetDoc w h self request_data) = [HoverQuery request_data])"
proof -
  have "(case GetDoc_try w request_data of
           Inl NoHoverInfoException \<Rightarrow> Inl (RuntimeError ''No documentation available.'')
         | r \<Rightarrow> r) \<noteq> Inl AssertionError"
    using GetDoc_try_not_assertion [of w request_data]
    by (auto split: sum.splits error.splits)
  then show ?thesis
    by (simp add: GetDoc_def)
qed

theorem GetDoc_hover_mode_contract_witness:
  "GetDoc example_world
     (example_store\<lparr>objects := (\<lambda>r. PDict [(''hoverKind'', PStr ''FullDocumentation'')])\<rparr>)
     example_completer (PStr ''F'') = (Inl AssertionError, []) \<and>
   fst (GetDoc example_world example_store example_completer (PStr ''F'')) \<noteq>
     Inl AssertionError \<and>
   snd (GetDoc example_world example_store example_completer (PStr ''F'')) =
     [HoverQuery (PStr ''F'')]"
proof -
  let ?h = "example_store\<lparr>objects := (\<lambda>r. PDict [(''hoverKind'', PStr ''FullDocumentation'')])\<rparr>"
  have 1: "hoverKind ?h example_completer = Inr (PStr ''FullDocumentation'') \<and>
      PStr ''FullDocumentation'' \<noteq> PStr ''Structured''"
    by (simp add: hoverKind_def store_get_def example_completer_def)
  show ?thesis
    using 1 hoverKind_example
      GetDoc_hover_mode_contract [of ?h example_completer "PStr ''FullDocumentation''"
        example_world "PStr ''F''"]
      GetDoc_hover_mode_contract [of example_store example_completer "PStr ''Structured''"
        example_world "PStr ''F''"]
    by blast
qed

subsection \<open>Configuration requests\<close>

lemma settings_for_items_shared:
  "map_of (settings self) ''ls'' = Some r \<Longrightarrow>
   settings_for_items h self items = (replicate (length items) r, h)"
  by (induction items) (simp_all add: settings_get_ls_def)

lemma settings_for_items_fresh:
  "map_of (settings self) ''ls'' = None \<Longrightarrow>
   \<exists>h'. settings_for_items h self items =
          ([next_ref h ..< next_ref h + length items], h') \<and>
        (\<forall>r. objects h' r =
          (if next_ref h \<le> r \<and> r < next_ref h + length items then PDict [] else objects h r))"
proof (induction items arbitrary: h)
  case Nil
  then show ?case by auto
next
  case (Cons i items)
  let ?h1 = "snd (alloc h (PDict []))"
  from Cons.IH [OF Cons.prems, of ?h1] obtain h' where
    rec: "settings_for_items ?h1 self items =
            ([next_ref ?h1 ..< next_ref ?h1 + length items], h')"
    and obj: "\<forall>r. objects h' r =
          (if next_ref ?h1 \<le> r \<and> r < next_ref ?h1 + length items then PDict []
           else objects ?h1 r)"
    by blast
  have n1: "next_ref ?h1 = Suc (next_ref h)"
    by (simp add: alloc_def)
  have o1: "objects ?h1 = (objects h)(next_ref h := PDict [])"
    by (simp add: alloc_def)
  have "settings_for_items h self (i # items) =
      (next_ref h # [Suc (next_ref h) ..< Suc (next_ref h) + length items], h')"
    using Cons.prems rec by (simp add: settings_get_ls_def alloc_def)
  moreover have "Suc (next_ref h) + length items = next_ref h + length (i # items)"
    by simp
  moreover have "[next_ref h ..< next_ref h + length (i # items)] =
      next_ref h # [Suc (next_ref h) ..< next_ref h + length (i # items)]"
    by (rule upt_conv_Cons) simp
  ultimately have "settings_for_items h self (i # items) =
      ([next_ref h ..< next_ref h + length (i # items)], h')"
    by (simp only:)
  moreover have "\<forall>r. objects h' r =
      (if next_ref h \<le> r \<and> r < next_ref h + length (i # items) then PDict []
       else objects h r)"
    using obj by (auto simp: n1 o1)
  ultimately show ?case by blast
qed

text \<open>
  C5, as stated, fails when the settings hold no \<^verbatim>\<open>ls\<close> subsection: each entry is then a
  dict of its own.  An assignment made through the first entry is seen through the first
  entry and not through the second.
\<close>

theorem WorkspaceConfigurationResponse_unshared_counterexample:
  "fst (WorkspaceConfigurationResponse example_store example_completer_no_settings
          example_request) = Inr [1, 2] \<and>
   store_get
     (store_set (snd (WorkspaceConfigurationResponse example_store
        example_completer_no_settings example_request)) 1 ''hoverKind'' (PStr ''Structured''))
     1 ''hoverKind'' = Inr (PStr ''Structured'') \<and>
   store_get
     (store_set (snd (WorkspaceConfigurationResponse example_store
        example_completer_no_settings example_request)) 1 ''hoverKind'' (PStr ''Structured''))
     2 ''hoverKind'' = Inl (KeyError ''hoverKind'')"
  by (simp add: WorkspaceConfigurationResponse_def example_request_def
      example_completer_no_settings_def example_completer_def example_store_def
      py_bind_def settings_get_ls_def alloc_def store_get_def store_set_def)

text \<open>
  C5, amended.  For a request whose \<^verbatim>\<open>params\<close> hold a list of N items, the response has N
  entries, one for each item in the order of the items.  When the settings hold an \<^verbatim>\<open>ls\<close>
  subsection, every entry is a reference to that one object, so that an assignment made
  through one entry is seen through every other, and the store is left as it was.  When
  they hold none, the entries are N different objects, each an empty dict.
\<close>

theorem WorkspaceConfigurationResponse_entries:
  assumes "py_getitem request ''params'' = Inr params"
    and "py_getitem params ''items'' = Inr (PList items)"
  shows "\<exists>entries h'.
           WorkspaceConfigurationResponse h self request = (Inr entries, h') \<and>
           length entries = length items \<and>
           (\<forall>r. map_of (settings self) ''ls'' = Some r \<longrightarrow>
              h' = h \<and> (\<forall>entry\<in>set entries. entry = r) \<and>
              (\<forall>a\<in>set entries. \<forall>b\<in>set entries. \<forall>k v.
                 store_get (store_set h' a k v) b k = store_get (store_set h' a k v) a k)) \<and>
           (map_of (settings self) ''ls'' = None \<longrightarrow>
              distinct entries \<and> (\<forall>entry\<in>set entries. objects h' entry = PDict []))"
proof (cases "map_of (settings self) ''ls''")
  case None
  from settings_for_items_fresh [OF None, of h items] obtain h' where
    "settings_for_items h self items = ([next_ref h ..< next_ref h + length items], h')"
    and "\<forall>r. objects h' r =
          (if next_ref h \<le> r \<and> r < next_ref h + length items then PDict [] else objects h r)"
    by blast
  then show ?thesis
    using None assms by (simp add: WorkspaceConfigurationResponse_def py_bind_def)
next
  case (Some r)
  then show ?thesis
    using assms
    by (simp add: WorkspaceConfigurationResponse_def py_bind_def settings_for_items_shared)
qed

theorem WorkspaceConfigurationResponse_entries_witness:
  "fst (WorkspaceConfigurationResponse example_store example_completer example_request) =
     Inr [0, 0] \<and>
   snd (WorkspaceConfigurationResponse example_store example_completer example_request) =
     example_store \<and>
   length (projr (fst (WorkspaceConfigurationResponse example_store
     example_completer_no_settings example_request))) = 2 \<and>
   distinct (projr (fst (WorkspaceConfigurationResponse example_store
     example_completer_no_settings example_request)))"
proof -
  let ?items = "[PDict [(''section'', PStr ''gopls'')], PDict [(''section'', PStr ''gopls'')]]"
  have 1: "py_getitem example_request ''params'' = Inr (PDict [(''items'', PList ?items)])"
    by (simp add: example_request_def)
  have 2: "py_getitem (PDict [(''items'', PList ?items)]) ''items'' = Inr (PList ?items)"
    by simp
  have 3: "map_of (settings example_completer) ''ls'' = Some 0"
    by (simp add: example_completer_def)
  have 4: "map_of (settings example_completer_no_settings) ''ls'' = None"
    by (simp add: example_completer_no_settings_def)
  obtain entries h' where
    shared: "WorkspaceConfigurationResponse example_store example_completer example_request =
      (Inr entries, h')" "length entries = length ?items" "h' = example_store"
      "\<forall>entry\<in>set entries. entry = 0"
    using WorkspaceConfigurationResponse_entries [OF 1 2, of example_store example_completer] 3
    by auto
  from shared(2,4) have "entries = [0, 0]"
    by (cases entries; cases "tl entries") auto
  moreover obtain entries2 h2 where
    "WorkspaceConfigurationResponse example_store example_completer_no_settings example_request =
      (Inr entries2, h2)" "length entries2 = length ?items" "distinct entries2"
    using WorkspaceConfigurationResponse_entries [OF 1 2, of example_store
      example_completer_no_settings] 4
    by auto
  ultimately show ?thesis
    using shared by simp
qed

end
